theory Spec2Isabelle
  imports Main
begin

section \<open>Values of the host language\<close>

text \<open>
  The runtime is TypeScript on Node. A value that comes from outside and may be
  \<^verbatim>\<open>undefined\<close> at run time (a header of a response, an element of an array, the
  one environment variable read without a non-null assertion) is an \<open>option\<close>,
  whatever the cast at the place of use says. The environment variables that the code
  reads with a non-null assertion are strings.
\<close>

text \<open>An \<^verbatim>\<open>Error\<close> object: \<^verbatim>\<open>name\<close>, \<^verbatim>\<open>message\<close> and the optional \<^verbatim>\<open>stack\<close>.\<close>

record js_error =
  name :: string
  message :: string
  stack :: "string option"

text \<open>
  Numbers. The only arithmetic of the runtime is on epoch milliseconds, which are
  integers that a double holds exactly; \<open>NaN\<close> is what the conversion of a missing or
  non-numeric header gives, and it absorbs subtraction.
\<close>

datatype js_number = Num int | NaN

fun minus_number :: "js_number \<Rightarrow> js_number \<Rightarrow> js_number" where
  "minus_number (Num a) (Num b) = Num (a - b)"
| "minus_number _ _ = NaN"

text \<open>The comparisons \<^verbatim>\<open><=\<close> and \<^verbatim>\<open><\<close> on numbers: false as soon as one side is \<open>NaN\<close>.\<close>

fun number_le :: "js_number \<Rightarrow> js_number \<Rightarrow> bool" where
  "number_le (Num a) (Num b) = (a \<le> b)"
| "number_le _ _ = False"

fun number_less :: "js_number \<Rightarrow> js_number \<Rightarrow> bool" where
  "number_less (Num a) (Num b) = (a < b)"
| "number_less _ _ = False"

definition is_digit :: "char \<Rightarrow> bool" where
  "is_digit c = (c \<in> set ''0123456789'')"

definition digit_val :: "char \<Rightarrow> int" where
  "digit_val c = int (of_char c) - 48"

definition decimal :: "string \<Rightarrow> int" where
  "decimal s = foldl (\<lambda>a c. 10 * a + digit_val c) 0 s"

text \<open>
  The unary \<^verbatim>\<open>+\<close> applied to a header value: \<open>NaN\<close> for \<^verbatim>\<open>undefined\<close>, the value of
  a string of decimal digits (0 for the empty string). The other numeric literal forms
  of the language (sign, fraction, exponent, radix prefix, surrounding blanks) are not
  epoch milliseconds; they are outside this integer model and are sent to \<open>NaN\<close>.
\<close>

definition unary_plus :: "string option \<Rightarrow> js_number" where
  "unary_plus v =
     (case v of
        None \<Rightarrow> NaN
      | Some s \<Rightarrow> if list_all is_digit s then Num (decimal s) else NaN)"

text \<open>A template literal prints an \<^verbatim>\<open>undefined\<close> value as the word itself.\<close>

definition interpolate :: "string option \<Rightarrow> string" where
  "interpolate v = (case v of None \<Rightarrow> ''undefined'' | Some s \<Rightarrow> s)"

text \<open>Truthiness of a possibly missing string: \<^verbatim>\<open>undefined\<close> and \<^verbatim>\<open>''\<close> are falsy.\<close>

definition truthy :: "string option \<Rightarrow> bool" where
  "truthy v = (case v of None \<Rightarrow> False | Some s \<Rightarrow> s \<noteq> [])"

text \<open>\<^verbatim>\<open>v || ''\<close> for a possibly missing string \<open>v\<close>.\<close>

definition or_empty :: "string option \<Rightarrow> string" where
  "or_empty v = (case v of None \<Rightarrow> [] | Some s \<Rightarrow> s)"

text \<open>
  \<^verbatim>\<open>s.split(sep)\<close> for a one-character separator: the pieces between the separators,
  empty pieces kept, so the result always has one piece more than \<open>s\<close> has separators.
\<close>

fun js_split :: "char \<Rightarrow> string \<Rightarrow> string list" where
  "js_split sep [] = [[]]"
| "js_split sep (c # cs) =
     (if c = sep then [] # js_split sep cs
      else (case js_split sep cs of
              [] \<Rightarrow> [[c]]
            | w # ws \<Rightarrow> (c # w) # ws))"

text \<open>\<^verbatim>\<open>parts.join(sep)\<close>, the inverse the proofs compare \<open>js_split\<close> with.\<close>

fun js_join :: "char \<Rightarrow> string list \<Rightarrow> string" where
  "js_join sep [] = []"
| "js_join sep [w] = w"
| "js_join sep (w # v # ws) = w @ sep # js_join sep (v # ws)"

text \<open>Reading element \<open>i\<close> of an array: \<^verbatim>\<open>undefined\<close> past the end.\<close>

definition element :: "'a list \<Rightarrow> nat \<Rightarrow> 'a option" where
  "element xs i = (if i < length xs then Some (xs ! i) else None)"

definition newline :: char where
  "newline = CHR 0x0A"

section \<open>helpers.ts: the transport\<close>

type_synonym header_dict = "(string \<times> string) list"

definition header :: "header_dict \<Rightarrow> string \<Rightarrow> string option" where
  "header h k = map_of h k"

fun set_header :: "header_dict \<Rightarrow> string \<Rightarrow> string \<Rightarrow> header_dict" where
  "set_header [] k v = [(k, v)]"
| "set_header ((k', v') # h) k v =
     (if k' = k then (k, v) # h else (k', v') # set_header h k v)"

text \<open>\<^verbatim>\<open>IRequestResult\<close>, what \<^verbatim>\<open>request\<close> resolves with.\<close>

record IRequestResult =
  statusCode :: "int option"
  headers :: header_dict
  body :: string

text \<open>
  The response as Node's http client hands it to the callback of \<^verbatim>\<open>request\<close>: the
  status, the header lines as they were received, and the chunks of the body.
\<close>

record IncomingMessage =
  res_statusCode :: "int option"
  res_rawHeaders :: "(string \<times> string) list"
  res_chunks :: "string list"

definition lower_char :: "char \<Rightarrow> char" where
  "lower_char c =
     (case map_of (zip ''ABCDEFGHIJKLMNOPQRSTUVWXYZ'' ''abcdefghijklmnopqrstuvwxyz'') c of
        None \<Rightarrow> c
      | Some d \<Rightarrow> d)"

text \<open>
  \<^verbatim>\<open>res.headers\<close> of Node's \<^verbatim>\<open>IncomingMessage\<close>: the received header lines keyed by
  their names in lower case. (Of two lines with one name this model keeps the first.)
\<close>

definition res_headers :: "IncomingMessage \<Rightarrow> header_dict" where
  "res_headers res = map (\<lambda>(k, v). (map lower_char k, v)) (res_rawHeaders res)"

text \<open>The value \<^verbatim>\<open>request\<close> resolves with when the response has ended (lines 18 to 24).\<close>

definition resolved :: "IncomingMessage \<Rightarrow> IRequestResult" where
  "resolved res =
     \<lparr>statusCode = res_statusCode res,
      headers = res_headers res,
      body = concat (res_chunks res)\<rparr>"

text \<open>
  How one exchange ends, as the network decides: an \<^verbatim>\<open>error\<close> event, which rejects the
  promise of \<^verbatim>\<open>request\<close>, or a complete response, which resolves it.
\<close>

type_synonym outcome = "js_error + IncomingMessage"

definition settle :: "outcome \<Rightarrow> js_error + IRequestResult" where
  "settle out = (case out of Inl e \<Rightarrow> Inl e | Inr res \<Rightarrow> Inr (resolved res))"

record RequestOptions =
  opt_method :: "string option"
  opt_headers :: "header_dict option"

definition no_options :: RequestOptions where
  "no_options = \<lparr>opt_method = None, opt_headers = None\<rparr>"

text \<open>One call of \<^verbatim>\<open>request(url, options, payload)\<close>; \<open>'p\<close> is the type of payloads.\<close>

record 'p request =
  url :: string
  options :: RequestOptions
  payload :: "'p option"

definition load :: "string \<Rightarrow> RequestOptions \<Rightarrow> 'p request" where
  "load u opts = \<lparr>url = u, options = opts\<lparr>opt_method := Some ''GET''\<rparr>, payload = None\<rparr>"

definition send :: "string \<Rightarrow> RequestOptions \<Rightarrow> 'p \<Rightarrow> 'p request" where
  "send u opts p =
     \<lparr>url = u,
      options = opts
        \<lparr>opt_method := Some ''POST'',
         opt_headers :=
           Some (set_header (case opt_headers opts of None \<Rightarrow> [] | Some h \<Rightarrow> h)
                   ''Content-Type'' ''application/json'')\<rparr>,
      payload = Some p\<rparr>"

text \<open>
  \<^verbatim>\<open>isResponseOk\<close>: both comparisons are false on a missing status, and the two are
  joined by \<^verbatim>\<open>||\<close>.
\<close>

definition isResponseOk :: "IRequestResult \<Rightarrow> bool" where
  "isResponseOk response =
     (case statusCode response of
        None \<Rightarrow> False
      | Some n \<Rightarrow> n \<ge> 200 \<or> n \<le> 300)"

section \<open>runtime.ts: data\<close>

record IAWSLambdaError =
  errorMessage :: string
  errorType :: string
  stackTrace :: "string list"

text \<open>
  \<^verbatim>\<open>IAWSLambdaContext\<close>; \<open>'j\<close> is the type of decoded JSON values. The accessor takes
  the reading of \<^verbatim>\<open>Date.now()\<close> at the moment of the call.
\<close>

record 'j IAWSLambdaContext =
  awsRequestId :: "string option"
  invokedFunctionArn :: "string option"
  logGroupName :: string
  logStreamName :: string
  functionName :: string
  functionVersion :: string
  memoryLimitInMB :: string
  clientContext :: "'j option"
  identity :: "'j option"
  getRemainingTimeInMillis :: "int \<Rightarrow> js_number"

text \<open>
  The variables taken from \<^verbatim>\<open>process.env\<close> when the module is loaded; \<open>HANDLER\<close> is
  the variable \<^verbatim>\<open>_HANDLER\<close>.
\<close>

record environment =
  AWS_LAMBDA_FUNCTION_NAME :: string
  AWS_LAMBDA_FUNCTION_VERSION :: string
  AWS_LAMBDA_FUNCTION_MEMORY_SIZE :: string
  AWS_LAMBDA_LOG_GROUP_NAME :: string
  AWS_LAMBDA_LOG_STREAM_NAME :: string
  LAMBDA_TASK_ROOT :: string
  HANDLER :: string
  AWS_LAMBDA_RUNTIME_API :: "string option"

text \<open>
  What a \<^verbatim>\<open>catch (e)\<close> clause may hold, since anything can be thrown: \<^verbatim>\<open>null\<close> or
  \<^verbatim>\<open>undefined\<close> (a promise rejected without a reason), on which reading a property
  throws, or an object with the properties of an \<^verbatim>\<open>Error\<close>. (Thrown values of other
  shapes, whose properties are missing or are not strings, are not modelled.)
\<close>

datatype thrown = Null_or_undefined | Object js_error

text \<open>
  A handler takes the event and the context and returns a result of type \<open>'r\<close> or
  throws (a rejected promise, once awaited, is a throw).
\<close>

type_synonym ('j, 'r) handler = "'j \<Rightarrow> 'j IAWSLambdaContext \<Rightarrow> thrown + 'r"

text \<open>
  What the runtime takes from its host and does not implement: \<open>import_module root path\<close>
  is \<^verbatim>\<open>await import(join(root, path))\<close>, a failure or the module (its exports by name;
  a missing or falsy export is \<open>None\<close>); \<open>JSON_parse\<close> is \<^verbatim>\<open>JSON.parse\<close>; \<open>Error_stack\<close>
  is the stack text the engine attaches to \<^verbatim>\<open>new Error(msg)\<close>; \<open>property_of_nullish p\<close>
  is the \<^verbatim>\<open>TypeError\<close> the engine throws when property \<open>p\<close> of \<^verbatim>\<open>null\<close> or
  \<^verbatim>\<open>undefined\<close> is read.
\<close>

record ('j, 'r) host =
  import_module :: "string \<Rightarrow> string \<Rightarrow> js_error + (string \<Rightarrow> ('j, 'r) handler option) option"
  JSON_parse :: "string \<Rightarrow> js_error + 'j"
  Error_stack :: "string \<Rightarrow> string option"
  property_of_nullish :: "string \<Rightarrow> js_error"

definition new_Error :: "('j, 'r) host \<Rightarrow> string \<Rightarrow> js_error" where
  "new_Error H msg = \<lparr>name = ''Error'', message = msg, stack = Error_stack H msg\<rparr>"

text \<open>
  A request body: the text \<^verbatim>\<open>JSON.stringify\<close> gives for an error record (kept as the
  record it encodes), or a handler's result passed on as it is.
\<close>

datatype 'r payload = JSON_stringify IAWSLambdaError | Result 'r

text \<open>
  The process as the claims observe it: the calls of \<^verbatim>\<open>request\<close> in the order they
  were made, the variable \<^verbatim>\<open>process.env._X_AMZN_TRACE_ID\<close>, the lines written by
  \<^verbatim>\<open>console.error\<close>, the status given to \<^verbatim>\<open>process.exit\<close> (\<open>None\<close> while the process
  runs), and the settled values of the promises that were made and never awaited.

  Node carries out no input or output while a function runs: the exchange of a request
  is started only once the running function has given control back to the event
  loop, which it does at an \<^verbatim>\<open>await\<close>. \<open>queued\<close> holds the requests made since control
  was last given back, \<open>started\<close> the requests whose exchange has been started on the
  network.
\<close>

record 'r process =
  requests :: "'r payload request list"
  X_AMZN_TRACE_ID :: "string option"
  console :: "string list"
  exit_status :: "int option"
  unawaited :: "(js_error + IRequestResult) list"
  queued :: "'r payload request list"
  started :: "'r payload request list"

definition boot :: "'r process" where
  "boot = \<lparr>requests = [], X_AMZN_TRACE_ID = None, console = [], exit_status = None,
            unawaited = [], queued = [], started = []\<rparr>"

text \<open>Making a call of \<^verbatim>\<open>request\<close>: the request is queued and a promise returned.\<close>

definition request :: "'r payload request \<Rightarrow> 'r process \<Rightarrow> 'r process" where
  "request r s = s\<lparr>requests := requests s @ [r], queued := queued s @ [r]\<rparr>"

text \<open>
  An \<^verbatim>\<open>await\<close>: the function is suspended, control goes back to the event loop, and
  the exchanges of the queued requests are started.
\<close>

definition await :: "'r process \<Rightarrow> 'r process" where
  "await s = s\<lparr>started := started s @ queued s, queued := []\<rparr>"

definition console_error :: "string \<Rightarrow> 'r process \<Rightarrow> 'r process" where
  "console_error line s = s\<lparr>console := console s @ [line]\<rparr>"

text \<open>
  \<^verbatim>\<open>process.exit\<close> ends the process at once, without going back to the event loop: what
  is queued then is never started.
\<close>

definition process_exit :: "int \<Rightarrow> 'r process \<Rightarrow> 'r process" where
  "process_exit code s = s\<lparr>exit_status := Some code\<rparr>"

section \<open>runtime.ts: the protocol client\<close>

definition API_VERSION :: string where
  "API_VERSION = ''/2018-06-01''"

definition getNextInvocationUrl :: "environment \<Rightarrow> string" where
  "getNextInvocationUrl E =
     interpolate (AWS_LAMBDA_RUNTIME_API E) @ ''/'' @ API_VERSION @ ''/runtime/invocation/next''"

definition getInvocationResponseUrl :: "environment \<Rightarrow> string option \<Rightarrow> string" where
  "getInvocationResponseUrl E requestId =
     interpolate (AWS_LAMBDA_RUNTIME_API E) @ ''/'' @ API_VERSION @ ''/runtime/invocation/''
       @ interpolate requestId @ ''/response''"

definition getInvocationErrorUrl :: "environment \<Rightarrow> string option \<Rightarrow> string" where
  "getInvocationErrorUrl E requestId =
     interpolate (AWS_LAMBDA_RUNTIME_API E) @ ''/'' @ API_VERSION @ ''/runtime/invocation/''
       @ interpolate requestId @ ''/error''"

definition getInitErrorUrl :: "environment \<Rightarrow> string" where
  "getInitErrorUrl E =
     interpolate (AWS_LAMBDA_RUNTIME_API E) @ ''/'' @ API_VERSION
       @ ''/runtime/invocation/init/error''"

definition createError :: "js_error \<Rightarrow> IAWSLambdaError" where
  "createError err =
     \<lparr>errorMessage = message err,
      errorType = name err,
      stackTrace = js_split newline (or_empty (stack err))\<rparr>"

text \<open>
  \<^verbatim>\<open>getLambdaHandler\<close>: the first two pieces of the specifier between dots are the
  module path and the export name; pieces after the second are not looked at.
\<close>

definition getLambdaHandler ::
  "('j, 'r) host \<Rightarrow> string \<Rightarrow> string \<Rightarrow> js_error + ('j, 'r) handler" where
  "getLambdaHandler H root handler =
     (let parts = js_split (CHR ''.'') handler;
          handlerPath = element parts 0;
          handlerName = element parts 1
      in if \<not> truthy handlerPath \<or> \<not> truthy handlerName
         then Inl (new_Error H (''Invalid handler: '' @ handler))
         else (case import_module H root (or_empty handlerPath) of
                 Inl e \<Rightarrow> Inl e
               | Inr None \<Rightarrow> Inl (new_Error H ''Handler module is empty!'')
               | Inr (Some handlerModule) \<Rightarrow>
                   (case handlerModule (or_empty handlerName) of
                      None \<Rightarrow> Inl (new_Error H ''Handler function not found!'')
                    | Some f \<Rightarrow> Inr f)))"

text \<open>
  An optional header that holds JSON (lines 81 to 87): absent or empty, the field stays
  unset; otherwise it is parsed, and a parse failure is thrown.
\<close>

definition parse_if_present :: "('j, 'r) host \<Rightarrow> string option \<Rightarrow> js_error + 'j option" where
  "parse_if_present H v =
     (if truthy v
      then (case JSON_parse H (or_empty v) of Inl e \<Rightarrow> Inl e | Inr j \<Rightarrow> Inr (Some j))
      else Inr None)"

text \<open>
  Lines 66 to 87 of \<^verbatim>\<open>getNextInvocation\<close>: from the resolved poll response to the
  event and the context. Nothing here touches the process.
\<close>

definition makeInvocation ::
  "('j, 'r) host \<Rightarrow> environment \<Rightarrow> IRequestResult \<Rightarrow> js_error + ('j \<times> 'j IAWSLambdaContext)" where
  "makeInvocation H E data =
     (case JSON_parse H (body data) of
        Inl e \<Rightarrow> Inl e
      | Inr event \<Rightarrow>
          (let deadline = unary_plus (header (headers data) ''lambda-runtime-deadline-ms'');
               context =
                 \<lparr>awsRequestId = header (headers data) ''lambda-runtime-aws-request-id'',
                  invokedFunctionArn = header (headers data) ''lambda-runtime-invoked-function-arn'',
                  logGroupName = AWS_LAMBDA_LOG_GROUP_NAME E,
                  logStreamName = AWS_LAMBDA_LOG_STREAM_NAME E,
                  functionName = AWS_LAMBDA_FUNCTION_NAME E,
                  functionVersion = AWS_LAMBDA_FUNCTION_VERSION E,
                  memoryLimitInMB = AWS_LAMBDA_FUNCTION_MEMORY_SIZE E,
                  clientContext = None,
                  identity = None,
                  getRemainingTimeInMillis = (\<lambda>now. minus_number deadline (Num now))\<rparr>
           in case parse_if_present H (header (headers data) ''lambda-runtime-client-context'') of
                Inl e \<Rightarrow> Inl e
              | Inr cc \<Rightarrow>
                  (case parse_if_present H (header (headers data) ''lambda-runtime-cognito-identity'') of
                     Inl e \<Rightarrow> Inl e
                   | Inr ident \<Rightarrow>
                       Inr (event, context\<lparr>clientContext := cc, identity := ident\<rparr>))))"

text \<open>
  \<^verbatim>\<open>getNextInvocation\<close>: the poll is made and awaited; \<open>answer\<close> is how it ends. A
  rejection and a failure of \<open>makeInvocation\<close> are thrown. Otherwise line 89 assigns the header read
  under the name \<^verbatim>\<open>Lambda-Runtime-Trace-Id\<close> to the environment variable, and an
  assignment to \<^verbatim>\<open>process.env\<close> stores the value as a string.
\<close>

definition getNextInvocation ::
  "('j, 'r) host \<Rightarrow> environment \<Rightarrow> outcome \<Rightarrow> 'r process
     \<Rightarrow> (js_error + ('j \<times> 'j IAWSLambdaContext)) \<times> 'r process" where
  "getNextInvocation H E answer s =
     (let s1 = await (request (load (getNextInvocationUrl E) no_options) s)
      in case settle answer of
           Inl e \<Rightarrow> (Inl e, s1)
         | Inr data \<Rightarrow>
             (case makeInvocation H E data of
                Inl e \<Rightarrow> (Inl e, s1)
              | Inr next_invocation \<Rightarrow>
                  (Inr next_invocation,
                   s1\<lparr>X_AMZN_TRACE_ID :=
                        Some (interpolate (header (headers data) ''Lambda-Runtime-Trace-Id''))\<rparr>)))"

text \<open>
  \<^verbatim>\<open>createError\<close> applied to what a \<^verbatim>\<open>catch\<close> clause holds. The object literal reads
  \<^verbatim>\<open>err.name\<close> first, which throws when \<^verbatim>\<open>err\<close> is \<^verbatim>\<open>null\<close> or \<^verbatim>\<open>undefined\<close>.
\<close>

definition createError_of :: "('j, 'r) host \<Rightarrow> thrown \<Rightarrow> js_error + IAWSLambdaError" where
  "createError_of H err =
     (case err of
        Null_or_undefined \<Rightarrow> Inl (property_of_nullish H ''name'')
      | Object e \<Rightarrow> Inr (createError e))"

text \<open>
  \<^verbatim>\<open>handleInitError\<close> and \<^verbatim>\<open>handleInvocationError\<close> make the call of \<^verbatim>\<open>send\<close> and
  return its promise. The arguments of \<^verbatim>\<open>send\<close> are evaluated first: when
  \<^verbatim>\<open>createError\<close> throws, \<^verbatim>\<open>send\<close> is not called and the exception (the first
  component) leaves the function. The error that \<^verbatim>\<open>handleInitError\<close> is given comes from
  \<open>getLambdaHandler\<close> and is an \<^verbatim>\<open>Error\<close>.
\<close>

definition handleInitError :: "environment \<Rightarrow> js_error \<Rightarrow> 'r process \<Rightarrow> 'r process" where
  "handleInitError E error s =
     request (send (getInitErrorUrl E) no_options (JSON_stringify (createError error))) s"

definition handleInvocationError ::
  "('j, 'r) host \<Rightarrow> environment \<Rightarrow> thrown \<Rightarrow> 'j IAWSLambdaContext \<Rightarrow> 'r process
     \<Rightarrow> js_error option \<times> 'r process" where
  "handleInvocationError H E error context s =
     (case createError_of H error of
        Inl e \<Rightarrow> (Some e, s)
      | Inr normalized \<Rightarrow>
          (None,
           request (send (getInvocationErrorUrl E (awsRequestId context)) no_options
                      (JSON_stringify normalized)) s))"

section \<open>runtime.ts: the loop\<close>

text \<open>
  What the network does in one cycle: how the poll ends, and how the report of the cycle
  (the response or the error report, whichever is posted) ends.
\<close>

record cycle_io =
  poll :: outcome
  report :: outcome

text \<open>
  One pass through the body of \<^verbatim>\<open>while (true)\<close> (lines 132 to 144). The first
  component is the exception that leaves the body, if any. The call of the handler is
  awaited. An exception of \<^verbatim>\<open>handleInvocationError\<close> itself is inside the \<^verbatim>\<open>catch\<close>
  block and leaves the body. The promise of \<^verbatim>\<open>handleInvocationError\<close> is not awaited:
  the pass ends with \<^verbatim>\<open>continue\<close> whatever becomes of that promise, and its settled
  value is only recorded. The promise of the response post is awaited, so its
  rejection is thrown.
\<close>

definition loop_body ::
  "('j, 'r) host \<Rightarrow> environment \<Rightarrow> ('j, 'r) handler \<Rightarrow> cycle_io \<Rightarrow> 'r process
     \<Rightarrow> js_error option \<times> 'r process" where
  "loop_body H E handler io s =
     (case getNextInvocation H E (poll io) s of
        (Inl e, s1) \<Rightarrow> (Some e, s1)
      | (Inr (event, context), s1) \<Rightarrow>
          (case handler event context of
             Inl e \<Rightarrow>
               (case handleInvocationError H E e context (await s1) of
                  (Some failure, s2) \<Rightarrow> (Some failure, s2)
                | (None, s2) \<Rightarrow>
                    (None, s2\<lparr>unawaited := unawaited s2 @ [settle (report io)]\<rparr>))
           | Inr result \<Rightarrow>
               (let s2 = await (request (send (getInvocationResponseUrl E (awsRequestId context))
                                           no_options (Result result)) (await s1))
                in case settle (report io) of
                     Inl e \<Rightarrow> (Some e, s2)
                   | Inr _ \<Rightarrow> (None, s2))))"

text \<open>
  The \<^verbatim>\<open>try\<close> around the loop (lines 120 to 150). The loop has no exit of its own: it
  runs as long as the network answers, here for the cycles of the list, and a process
  that has used them up is waiting, with no exit status. An exception that leaves the
  body is logged and the process exits with status 1.
\<close>

fun run_loop ::
  "('j, 'r) host \<Rightarrow> environment \<Rightarrow> ('j, 'r) handler \<Rightarrow> cycle_io list \<Rightarrow> 'r process
     \<Rightarrow> 'r process" where
  "run_loop H E handler [] s = s"
| "run_loop H E handler (io # ios) s =
     (case loop_body H E handler io s of
        (Some e, s') \<Rightarrow> process_exit 1 (console_error (message e) s')
      | (None, s') \<Rightarrow> run_loop H E handler ios s')"

text \<open>
  \<^verbatim>\<open>startRuntime\<close>, from a fresh process. The loading of the handler is awaited. When
  it fails, \<^verbatim>\<open>handleInitError\<close> is called, its promise is not awaited, and
  \<^verbatim>\<open>process.exit(1)\<close> is the next statement.
\<close>

definition startRuntime :: "('j, 'r) host \<Rightarrow> environment \<Rightarrow> cycle_io list \<Rightarrow> 'r process" where
  "startRuntime H E ios =
     (case getLambdaHandler H (LAMBDA_TASK_ROOT E) (HANDLER E) of
        Inl e \<Rightarrow> process_exit 1 (handleInitError E e (await boot))
      | Inr handler \<Rightarrow> run_loop H E handler ios (await boot))"

section \<open>Observing the requests\<close>

text \<open>
  The endpoint a request goes to, read off its method and the end of its URL, as a
  control plane that counts the calls would do.
\<close>

definition ends_with :: "string \<Rightarrow> string \<Rightarrow> bool" where
  "ends_with suffix s = (take (length suffix) (rev s) = rev suffix)"

datatype endpoint = Next | Response | Error | Other

definition endpoint_of :: "'p request \<Rightarrow> endpoint" where
  "endpoint_of r =
     (if opt_method (options r) = Some ''GET'' \<and> ends_with ''/runtime/invocation/next'' (url r)
      then Next
      else if opt_method (options r) = Some ''POST'' \<and> ends_with ''/response'' (url r)
      then Response
      else if opt_method (options r) = Some ''POST'' \<and> ends_with ''/error'' (url r)
      then Error
      else Other)"


section \<open>Example values\<close>

text \<open>
  A host, an environment, a handler and responses of the control plane on which the
  theorems below are instantiated. JSON texts stand for their values (parsing is the
  identity but for one malformed text); the handler throws on the event \<open>n=2\<close> and
  returns \<open>ok\<close> otherwise.
\<close>

definition boom :: js_error where
  "boom = \<lparr>name = ''Error'', message = ''boom'', stack = Some ''Error: boom''\<rparr>"

definition example_handler :: "(string, string) handler" where
  "example_handler event context = (if event = ''n=2'' then Inl (Object boom) else Inr ''ok'')"

text \<open>A handler that returns a promise rejected without a reason.\<close>

definition rejecting_handler :: "(string, string) handler" where
  "rejecting_handler event context = Inl Null_or_undefined"

definition example_host :: "(string, string) host" where
  "example_host =
     \<lparr>import_module =
        (\<lambda>root path.
           if path = ''index'' \<or> path = ''a''
           then Inr (Some (\<lambda>n. if n = ''handler'' \<or> n = ''b'' then Some example_handler else None))
           else Inl \<lparr>name = ''Error'', message = ''Cannot find module'', stack = None\<rparr>),
      JSON_parse =
        (\<lambda>text.
           if text = ''{''
           then Inl \<lparr>name = ''SyntaxError'', message = ''Unexpected end of JSON input'',
                     stack = None\<rparr>
           else Inr text),
      Error_stack = (\<lambda>msg. Some (''Error: '' @ msg)),
      property_of_nullish =
        (\<lambda>p. \<lparr>name = ''TypeError'',
               message = ''Cannot read properties of undefined (reading '' @ p @ '')'',
               stack = None\<rparr>)\<rparr>"

definition example_environment :: "string \<Rightarrow> environment" where
  "example_environment spec =
     \<lparr>AWS_LAMBDA_FUNCTION_NAME = ''f'',
      AWS_LAMBDA_FUNCTION_VERSION = ''1'',
      AWS_LAMBDA_FUNCTION_MEMORY_SIZE = ''128'',
      AWS_LAMBDA_LOG_GROUP_NAME = ''g'',
      AWS_LAMBDA_LOG_STREAM_NAME = ''s'',
      LAMBDA_TASK_ROOT = ''/var/task'',
      HANDLER = spec,
      AWS_LAMBDA_RUNTIME_API = Some ''127.0.0.1:9001''\<rparr>"

definition invocation :: "string \<Rightarrow> string \<Rightarrow> IncomingMessage" where
  "invocation rid event =
     \<lparr>res_statusCode = Some 200,
      res_rawHeaders =
        [(''Lambda-Runtime-Aws-Request-Id'', rid),
         (''Lambda-Runtime-Deadline-Ms'', ''1000''),
         (''Lambda-Runtime-Invoked-Function-Arn'', ''arn''),
         (''Lambda-Runtime-Trace-Id'', ''Root=1-5e1b4151'')],
      res_chunks = [event]\<rparr>"

definition accepted :: IncomingMessage where
  "accepted = \<lparr>res_statusCode = Some 202, res_rawHeaders = [], res_chunks = []\<rparr>"

definition connection_reset :: js_error where
  "connection_reset = \<lparr>name = ''Error'', message = ''read ECONNRESET'', stack = None\<rparr>"

section \<open>The handler specifier\<close>

text \<open>
  The validity of a specifier in the words of the specification: it splits at the
  dots into exactly two pieces, a non-empty module path and a non-empty export name.
\<close>

definition splits_exactly :: "string \<Rightarrow> bool" where
  "splits_exactly handler =
     (case js_split (CHR ''.'') handler of
        [p, n] \<Rightarrow> p \<noteq> [] \<and> n \<noteq> []
      | _ \<Rightarrow> False)"

text \<open>
  What the check of \<open>getLambdaHandler\<close> looks at: the first and the second piece are
  there and are not empty, whatever follows them.
\<close>

definition leading_pieces_present :: "string \<Rightarrow> bool" where
  "leading_pieces_present handler =
     (case js_split (CHR ''.'') handler of
        p # n # rest \<Rightarrow> p \<noteq> [] \<and> n \<noteq> []
      | _ \<Rightarrow> False)"

section \<open>Splitting and joining\<close>

lemma js_split_not_Nil: "js_split sep s \<noteq> []"
  by (induction s) (auto split: list.splits)

lemma js_join_Cons: "ws \<noteq> [] \<Longrightarrow> js_join sep ((c # w) # ws) = c # js_join sep (w # ws)"
  by (cases ws) auto

lemma js_join_split: "js_join sep (js_split sep s) = s"
proof (induction s)
  case Nil
  show ?case by simp
next
  case (Cons c cs)
  obtain w ws where ws: "js_split sep cs = w # ws"
    using js_split_not_Nil [of sep cs] by (cases "js_split sep cs") auto
  show ?case
  proof (cases "c = sep")
    case True
    with Cons ws show ?thesis by simp
  next
    case False
    with Cons ws show ?thesis by (cases ws) auto
  qed
qed

lemma js_split_pieces: "w \<in> set (js_split sep s) \<Longrightarrow> sep \<notin> set w"
proof (induction s arbitrary: w)
  case Nil
  then show ?case by simp
next
  case (Cons c cs)
  then show ?case
    by (cases "js_split sep cs") (auto split: if_splits)
qed

lemma length_js_split: "length (js_split sep s) = Suc (count_list s sep)"
proof (induction s)
  case Nil
  show ?case by simp
next
  case (Cons c cs)
  then show ?case
    by (cases "js_split sep cs") auto
qed

lemma js_split_no_sep: "sep \<notin> set s \<Longrightarrow> js_split sep s = [s]"
  by (induction s) auto

lemma first_js_split: "element (js_split sep s) 0 = Some (takeWhile (\<lambda>c. c \<noteq> sep) s)"
proof (induction s)
  case Nil
  show ?case by (simp add: element_def)
next
  case (Cons c cs)
  obtain w ws where ws: "js_split sep cs = w # ws"
    using js_split_not_Nil [of sep cs] by (cases "js_split sep cs") auto
  with Cons show ?case by (simp add: element_def)
qed

section \<open>Error normalization\<close>

text \<open>
  Claim C3. \<open>createError\<close> maps an error to the record whose \<open>errorType\<close> is the
  error's name, whose \<open>errorMessage\<close> is its message and whose \<open>stackTrace\<close> is the
  stack text (the empty text when there is none) split at the line breaks with every
  line kept: joining the lines with line breaks gives the stack text back, there is
  one line more than there are line breaks, no line holds a line break, and the first
  line is the text up to the first line break. For the error with name TypeError,
  message bad and the three-line stack of the specification, the result is the record
  given there.
\<close>

theorem createError_normalizes:
  "errorType (createError err) = name err \<and>
   errorMessage (createError err) = message err \<and>
   js_join newline (stackTrace (createError err)) = or_empty (stack err) \<and>
   length (stackTrace (createError err)) = Suc (count_list (or_empty (stack err)) newline) \<and>
   list_all (\<lambda>line. newline \<notin> set line) (stackTrace (createError err)) \<and>
   element (stackTrace (createError err)) 0
     = Some (takeWhile (\<lambda>c. c \<noteq> newline) (or_empty (stack err))) \<and>
   createError
     \<lparr>name = ''TypeError'', message = ''bad'',
      stack = Some (''TypeError: bad'' @ [newline] @ ''at foo'' @ [newline] @ ''at bar'')\<rparr>
     = \<lparr>errorMessage = ''bad'', errorType = ''TypeError'',
        stackTrace = [''TypeError: bad'', ''at foo'', ''at bar'']\<rparr>"
proof -
  have pieces: "list_all (\<lambda>line. newline \<notin> set line) (stackTrace (createError err))"
    unfolding list_all_iff createError_def using js_split_pieces by simp
  have example: "createError
     \<lparr>name = ''TypeError'', message = ''bad'',
      stack = Some (''TypeError: bad'' @ [newline] @ ''at foo'' @ [newline] @ ''at bar'')\<rparr>
     = \<lparr>errorMessage = ''bad'', errorType = ''TypeError'',
        stackTrace = [''TypeError: bad'', ''at foo'', ''at bar'']\<rparr>"
    by (simp add: createError_def or_empty_def newline_def)
  show ?thesis
    using pieces example
    by (simp add: createError_def js_join_split length_js_split first_js_split)
qed

section \<open>The response-status predicate\<close>

text \<open>
  Claim C10. \<open>isResponseOk\<close> is true exactly of the responses whose status code is
  defined: whatever the integer, one of the two comparisons holds. So it is true of
  the statuses 404 and 500 as well.
\<close>

theorem isResponseOk_defined_status:
  "isResponseOk response = (statusCode response \<noteq> None) \<and>
   isResponseOk (response\<lparr>statusCode := Some n\<rparr>) \<and>
   isResponseOk (response\<lparr>statusCode := Some 404\<rparr>) \<and>
   isResponseOk (response\<lparr>statusCode := Some 500\<rparr>)"
  by (cases "statusCode response") (auto simp: isResponseOk_def)


section \<open>The requests and their endpoints\<close>

lemma ends_with_append: "ends_with suffix (s @ suffix)"
  by (simp add: ends_with_def)

lemma endpoint_of_next: "endpoint_of (load (getNextInvocationUrl E) opts) = Next"
  by (simp add: endpoint_of_def load_def getNextInvocationUrl_def ends_with_def)

lemma endpoint_of_response:
  "endpoint_of (send (getInvocationResponseUrl E rid) opts p) = Response"
  by (simp add: endpoint_of_def send_def getInvocationResponseUrl_def ends_with_def)

lemma endpoint_of_error: "endpoint_of (send (getInvocationErrorUrl E rid) opts p) = Error"
  by (simp add: endpoint_of_def send_def getInvocationErrorUrl_def ends_with_def)

lemma endpoint_of_init_error: "endpoint_of (send (getInitErrorUrl E) opts p) = Error"
  by (simp add: endpoint_of_def send_def getInitErrorUrl_def ends_with_def)

lemma response_url:
  "getInvocationResponseUrl E (Some rid) =
     interpolate (AWS_LAMBDA_RUNTIME_API E) @ ''//2018-06-01/runtime/invocation/'' @ rid
       @ ''/response''"
  by (simp add: getInvocationResponseUrl_def API_VERSION_def interpolate_def)

lemma error_url:
  "getInvocationErrorUrl E (Some rid) =
     interpolate (AWS_LAMBDA_RUNTIME_API E) @ ''//2018-06-01/runtime/invocation/'' @ rid
       @ ''/error''"
  by (simp add: getInvocationErrorUrl_def API_VERSION_def interpolate_def)

section \<open>One cycle\<close>

lemma getNextInvocation_rejected:
  "answer = Inl e \<Longrightarrow>
   getNextInvocation H E answer s =
     (Inl e, await (request (load (getNextInvocationUrl E) no_options) s))"
  by (simp add: getNextInvocation_def settle_def)

lemma getNextInvocation_malformed:
  "answer = Inr res \<Longrightarrow> makeInvocation H E (resolved res) = Inl e \<Longrightarrow>
   getNextInvocation H E answer s =
     (Inl e, await (request (load (getNextInvocationUrl E) no_options) s))"
  by (simp add: getNextInvocation_def settle_def)

lemma getNextInvocation_ok:
  "answer = Inr res \<Longrightarrow> makeInvocation H E (resolved res) = Inr invoc \<Longrightarrow>
   getNextInvocation H E answer s =
     (Inr invoc,
      (await (request (load (getNextInvocationUrl E) no_options) s))
        \<lparr>X_AMZN_TRACE_ID :=
           Some (interpolate (header (res_headers res) ''Lambda-Runtime-Trace-Id''))\<rparr>)"
  by (simp add: getNextInvocation_def settle_def resolved_def)

lemma makeInvocation_request_id:
  "makeInvocation H E data = Inr (event, ctx) \<Longrightarrow>
   awsRequestId ctx = header (headers data) ''lambda-runtime-aws-request-id''"
  by (auto simp: makeInvocation_def Let_def split: sum.splits)

lemma makeInvocation_remaining_time:
  "makeInvocation H E data = Inr (event, ctx) \<Longrightarrow>
   getRemainingTimeInMillis ctx now =
     minus_number (unary_plus (header (headers data) ''lambda-runtime-deadline-ms'')) (Num now)"
  by (auto simp: makeInvocation_def Let_def split: sum.splits)

lemma loop_body_poll_rejected:
  "poll io = Inl e \<Longrightarrow>
   loop_body H E handler io s =
     (Some e, await (request (load (getNextInvocationUrl E) no_options) s))"
  by (simp add: loop_body_def getNextInvocation_rejected)

lemma loop_body_poll_malformed:
  "poll io = Inr res \<Longrightarrow> makeInvocation H E (resolved res) = Inl e \<Longrightarrow>
   loop_body H E handler io s =
     (Some e, await (request (load (getNextInvocationUrl E) no_options) s))"
  by (simp add: loop_body_def getNextInvocation_malformed)

lemma loop_body_handler_throws:
  "poll io = Inr res \<Longrightarrow> makeInvocation H E (resolved res) = Inr (event, ctx) \<Longrightarrow>
   handler event ctx = Inl (Object e) \<Longrightarrow>
   loop_body H E handler io s =
     (None,
      s\<lparr>requests := requests s @
           [load (getNextInvocationUrl E) no_options,
            send (getInvocationErrorUrl E (awsRequestId ctx)) no_options
              (JSON_stringify (createError e))],
        X_AMZN_TRACE_ID :=
          Some (interpolate (header (res_headers res) ''Lambda-Runtime-Trace-Id'')),
        unawaited := unawaited s @ [settle (report io)],
        queued :=
          [send (getInvocationErrorUrl E (awsRequestId ctx)) no_options
             (JSON_stringify (createError e))],
        started := started s @ queued s @ [load (getNextInvocationUrl E) no_options]\<rparr>)"
  by (simp add: loop_body_def getNextInvocation_ok handleInvocationError_def
      createError_of_def request_def await_def)

text \<open>
  The handler throws \<^verbatim>\<open>null\<close> or \<^verbatim>\<open>undefined\<close>: \<^verbatim>\<open>createError\<close> throws in the
  \<^verbatim>\<open>catch\<close> block, no report is made, and the exception leaves the loop body.
\<close>

lemma loop_body_handler_throws_nullish:
  "poll io = Inr res \<Longrightarrow> makeInvocation H E (resolved res) = Inr (event, ctx) \<Longrightarrow>
   handler event ctx = Inl Null_or_undefined \<Longrightarrow>
   loop_body H E handler io s =
     (Some (property_of_nullish H ''name''),
      s\<lparr>requests := requests s @ [load (getNextInvocationUrl E) no_options],
        X_AMZN_TRACE_ID :=
          Some (interpolate (header (res_headers res) ''Lambda-Runtime-Trace-Id'')),
        queued := [],
        started := started s @ queued s @ [load (getNextInvocationUrl E) no_options]\<rparr>)"
  by (simp add: loop_body_def getNextInvocation_ok handleInvocationError_def
      createError_of_def request_def await_def)

lemma loop_body_handler_returns:
  "poll io = Inr res \<Longrightarrow> makeInvocation H E (resolved res) = Inr (event, ctx) \<Longrightarrow>
   handler event ctx = Inr result \<Longrightarrow>
   loop_body H E handler io s =
     ((case report io of Inl e \<Rightarrow> Some e | Inr ack \<Rightarrow> None),
      s\<lparr>requests := requests s @
           [load (getNextInvocationUrl E) no_options,
            send (getInvocationResponseUrl E (awsRequestId ctx)) no_options
              (Result result)],
        X_AMZN_TRACE_ID :=
          Some (interpolate (header (res_headers res) ''Lambda-Runtime-Trace-Id'')),
        queued := [],
        started := started s @ queued s @
          [load (getNextInvocationUrl E) no_options,
           send (getInvocationResponseUrl E (awsRequestId ctx)) no_options
             (Result result)]\<rparr>)"
  by (simp add: loop_body_def getNextInvocation_ok request_def await_def settle_def Let_def
      split: sum.splits)

text \<open>Every pass begins with the poll, and no pass takes a request back.\<close>

lemma loop_body_begins_with_poll:
  "\<exists>rest. requests (snd (loop_body H E handler io s)) =
     requests s @ load (getNextInvocationUrl E) no_options # rest"
  by (auto simp: loop_body_def getNextInvocation_def handleInvocationError_def
      createError_of_def request_def await_def Let_def
      split: sum.splits prod.splits thrown.splits)

lemma run_loop_extends: "\<exists>rest. requests (run_loop H E handler ios s) = requests s @ rest"
proof (induction ios arbitrary: s)
  case Nil
  show ?case by simp
next
  case (Cons io ios)
  obtain r s' where body: "loop_body H E handler io s = (r, s')"
    by (cases "loop_body H E handler io s")
  obtain rest where first: "requests s' = requests s @ load (getNextInvocationUrl E) no_options # rest"
    using loop_body_begins_with_poll [of H E handler io s] body by auto
  show ?case
  proof (cases r)
    case None
    obtain more where "requests (run_loop H E handler ios s') = requests s' @ more"
      using Cons.IH [of s'] by auto
    with None body first show ?thesis by simp
  next
    case (Some e)
    with body first show ?thesis by (simp add: process_exit_def console_error_def)
  qed
qed

lemma run_loop_begins_with_poll:
  "\<exists>rest. requests (run_loop H E handler (io # ios) s) =
     requests s @ load (getNextInvocationUrl E) no_options # rest"
proof -
  obtain r s' where body: "loop_body H E handler io s = (r, s')"
    by (cases "loop_body H E handler io s")
  obtain rest where first: "requests s' = requests s @ load (getNextInvocationUrl E) no_options # rest"
    using loop_body_begins_with_poll [of H E handler io s] body by auto
  show ?thesis
  proof (cases r)
    case None
    obtain more where "requests (run_loop H E handler ios s') = requests s' @ more"
      using run_loop_extends [of H E handler ios s'] by auto
    with None body first show ?thesis by simp
  next
    case (Some e)
    with body first show ?thesis by (simp add: process_exit_def console_error_def)
  qed
qed

section \<open>Failures that end the process, and the one that does not\<close>

lemma poll_rejection_is_fatal:
  "poll io = Inl e \<Longrightarrow>
   run_loop H E handler (io # ios) s =
     process_exit 1 (console_error (message e)
       (await (request (load (getNextInvocationUrl E) no_options) s)))"
  by (simp add: loop_body_poll_rejected)

lemma poll_decode_failure_is_fatal:
  "poll io = Inr res \<Longrightarrow> makeInvocation H E (resolved res) = Inl e \<Longrightarrow>
   run_loop H E handler (io # ios) s =
     process_exit 1 (console_error (message e)
       (await (request (load (getNextInvocationUrl E) no_options) s)))"
  by (simp add: loop_body_poll_malformed)

lemma body_parse_failure_is_thrown:
  "JSON_parse H (body data) = Inl e \<Longrightarrow> makeInvocation H E data = Inl e"
  by (simp add: makeInvocation_def)

lemma response_post_failure_is_fatal:
  "poll io = Inr res \<Longrightarrow> makeInvocation H E (resolved res) = Inr (event, ctx) \<Longrightarrow>
   handler event ctx = Inr result \<Longrightarrow> report io = Inl e \<Longrightarrow>
   exit_status (run_loop H E handler (io # ios) s) = Some 1 \<and>
   console (run_loop H E handler (io # ios) s) = console s @ [message e]"
  by (simp add: loop_body_handler_returns process_exit_def console_error_def)

lemma error_post_failure_is_not_seen:
  "poll io = Inr res \<Longrightarrow> makeInvocation H E (resolved res) = Inr (event, ctx) \<Longrightarrow>
   handler event ctx = Inl (Object thrown) \<Longrightarrow> report io = Inl e \<Longrightarrow>
   run_loop H E handler (io # ios) s =
     run_loop H E handler ios (snd (loop_body H E handler io s)) \<and>
   exit_status (snd (loop_body H E handler io s)) = exit_status s \<and>
   console (snd (loop_body H E handler io s)) = console s \<and>
   unawaited (snd (loop_body H E handler io s)) = unawaited s @ [Inl e]"
  by (simp add: loop_body_handler_throws settle_def)

text \<open>
  A handler that throws an \<^verbatim>\<open>Error\<close>: the pass ends without an exception; its requests
  are the poll and one POST to the error URL of the polled request id, whose body is
  the record of the error's name, its message and the lines of its stack; exit status
  and console are as before, and the loop goes on to poll again.
\<close>

lemma handler_error_is_isolated:
  assumes "poll io = Inr res"
    and "makeInvocation H E (resolved res) = Inr (event, ctx)"
    and "handler event ctx = Inl (Object e)"
  shows "fst (loop_body H E handler io s) = None \<and>
    requests (snd (loop_body H E handler io s)) =
      requests s @
        [load (getNextInvocationUrl E) no_options,
         send (getInvocationErrorUrl E (header (res_headers res) ''lambda-runtime-aws-request-id''))
           no_options
           (JSON_stringify
              \<lparr>errorMessage = message e, errorType = name e,
               stackTrace = js_split newline (or_empty (stack e))\<rparr>)] \<and>
    exit_status (snd (loop_body H E handler io s)) = exit_status s \<and>
    console (snd (loop_body H E handler io s)) = console s \<and>
    run_loop H E handler (io # ios) s =
      run_loop H E handler ios (snd (loop_body H E handler io s)) \<and>
    (\<exists>rest. requests (run_loop H E handler (io # io' # ios') s) =
       requests (snd (loop_body H E handler io s)) @
         load (getNextInvocationUrl E) no_options # rest)"
proof -
  let ?s' = "snd (loop_body H E handler io s)"
  have rid: "awsRequestId ctx = header (res_headers res) ''lambda-runtime-aws-request-id''"
    using makeInvocation_request_id [OF assms(2)] by (simp add: resolved_def)
  note body = loop_body_handler_throws [where handler = handler and event = event
      and ctx = ctx and s = s, OF assms]
  have none: "fst (loop_body H E handler io s) = None"
    by (simp add: body)
  have made: "requests ?s' =
      requests s @
        [load (getNextInvocationUrl E) no_options,
         send (getInvocationErrorUrl E (header (res_headers res) ''lambda-runtime-aws-request-id''))
           no_options
           (JSON_stringify
              \<lparr>errorMessage = message e, errorType = name e,
               stackTrace = js_split newline (or_empty (stack e))\<rparr>)]"
    by (simp add: body rid createError_def)
  have status: "exit_status ?s' = exit_status s" and out: "console ?s' = console s"
    by (simp_all add: body)
  have continues: "run_loop H E handler (io # ios) s = run_loop H E handler ios ?s'" for ios
    by (simp add: body)
  have again: "\<exists>rest. requests (run_loop H E handler (io # io' # ios') s) =
       requests ?s' @ load (getNextInvocationUrl E) no_options # rest"
    using run_loop_begins_with_poll [of H E handler io' ios' ?s'] continues [of "io' # ios'"]
    by simp
  from none made status out continues [of ios] again show ?thesis
    by (intro conjI)
qed

text \<open>
  A handler that throws \<^verbatim>\<open>null\<close> or \<^verbatim>\<open>undefined\<close>: the only request of the pass is
  the poll, and the process logs the engine's \<^verbatim>\<open>TypeError\<close> and exits with status 1,
  whatever the network would have answered afterwards.
\<close>

lemma nullish_throw_is_fatal:
  assumes "poll io = Inr res"
    and "makeInvocation H E (resolved res) = Inr (event, ctx)"
    and "handler event ctx = Inl Null_or_undefined"
  shows "requests (run_loop H E handler (io # ios) s) =
      requests s @ [load (getNextInvocationUrl E) no_options] \<and>
    exit_status (run_loop H E handler (io # ios) s) = Some 1 \<and>
    console (run_loop H E handler (io # ios) s) =
      console s @ [message (property_of_nullish H ''name'')]"
  using loop_body_handler_throws_nullish [where handler = handler and event = event
      and ctx = ctx and s = s, OF assms]
  by (simp add: process_exit_def console_error_def)

text \<open>
  A handler that cannot be loaded: one call of \<^verbatim>\<open>send\<close>, to the init-error URL, and the
  exit with status 1, with no return to the event loop in between. The request is
  still queued when the process ends; no exchange was started, and no poll was made.
\<close>

lemma startRuntime_init_failure:
  "getLambdaHandler H (LAMBDA_TASK_ROOT E) (HANDLER E) = Inl e \<Longrightarrow>
   startRuntime H E ios =
     boot\<lparr>requests := [send (getInitErrorUrl E) no_options (JSON_stringify (createError e))],
          exit_status := Some 1,
          queued := [send (getInitErrorUrl E) no_options (JSON_stringify (createError e))]\<rparr>"
  by (simp add: startRuntime_def handleInitError_def request_def process_exit_def boot_def
      await_def)

lemma init_report_is_never_started:
  "getLambdaHandler H (LAMBDA_TASK_ROOT E) (HANDLER E) = Inl e \<Longrightarrow>
   started (startRuntime H E ios) = [] \<and>
   queued (startRuntime H E ios) =
     [send (getInitErrorUrl E) no_options (JSON_stringify (createError e))] \<and>
   exit_status (startRuntime H E ios) = Some 1"
  by (simp add: startRuntime_init_failure boot_def)

lemma startRuntime_loaded:
  "getLambdaHandler H (LAMBDA_TASK_ROOT E) (HANDLER E) = Inr handler \<Longrightarrow>
   startRuntime H E ios = run_loop H E handler ios boot"
  by (simp add: startRuntime_def await_def boot_def)

section \<open>The example values\<close>

lemma example_invocation:
  "event \<noteq> ''{'' \<Longrightarrow>
   \<exists>ctx. makeInvocation example_host (example_environment spec) (resolved (invocation rid event))
      = Inr (event, ctx)"
  by (simp add: makeInvocation_def example_host_def resolved_def invocation_def
      parse_if_present_def truthy_def header_def res_headers_def lower_char_def)

lemma example_request_id:
  "header (res_headers (invocation rid event)) ''lambda-runtime-aws-request-id'' = Some rid"
  by (simp add: header_def res_headers_def invocation_def lower_char_def)

lemma example_deadline:
  "unary_plus (header (headers (resolved (invocation rid event))) ''lambda-runtime-deadline-ms'')
     = Num 1000"
  by (simp add: header_def res_headers_def resolved_def invocation_def lower_char_def
      unary_plus_def is_digit_def decimal_def digit_val_def)

lemma example_urls:
  "getNextInvocationUrl (example_environment spec) =
     ''127.0.0.1:9001//2018-06-01/runtime/invocation/next''"
  "interpolate (AWS_LAMBDA_RUNTIME_API (example_environment spec)) = ''127.0.0.1:9001''"
  by (simp_all add: getNextInvocationUrl_def API_VERSION_def interpolate_def
      example_environment_def)

lemma example_loaded:
  "getLambdaHandler example_host (LAMBDA_TASK_ROOT (example_environment ''index.handler''))
     (HANDLER (example_environment ''index.handler'')) = Inr example_handler"
  by (simp add: getLambdaHandler_def example_host_def example_environment_def element_def
      truthy_def or_empty_def)

section \<open>A handler that throws\<close>

text \<open>
  Claim C1, evaluated on the code. A cycle whose handler returns a promise rejected
  without a reason, so that \<^verbatim>\<open>undefined\<close> is what the \<^verbatim>\<open>catch\<close> clause holds: the
  only request is the poll, no error report is made, the process logs the engine's
  \<^verbatim>\<open>TypeError\<close> and exits with status 1, and the cycle that would have followed does
  not take place. The same cycle with a handler that throws \<^verbatim>\<open>Error('boom')\<close> makes
  the poll and one POST of the error's kind, message and stack lines to the error URL
  of the request id, leaves the exit status unset, and is followed by the next poll.
\<close>

theorem thrown_undefined_ends_the_process:
  "requests (run_loop example_host (example_environment ''index.handler'') rejecting_handler
     [\<lparr>poll = Inr (invocation ''r2'' ''n=2''), report = Inr accepted\<rparr>,
      \<lparr>poll = Inr (invocation ''r3'' ''n=3''), report = Inr accepted\<rparr>] boot) =
     [load ''127.0.0.1:9001//2018-06-01/runtime/invocation/next'' no_options] \<and>
   exit_status (run_loop example_host (example_environment ''index.handler'') rejecting_handler
     [\<lparr>poll = Inr (invocation ''r2'' ''n=2''), report = Inr accepted\<rparr>,
      \<lparr>poll = Inr (invocation ''r3'' ''n=3''), report = Inr accepted\<rparr>] boot) = Some 1 \<and>
   console (run_loop example_host (example_environment ''index.handler'') rejecting_handler
     [\<lparr>poll = Inr (invocation ''r2'' ''n=2''), report = Inr accepted\<rparr>,
      \<lparr>poll = Inr (invocation ''r3'' ''n=3''), report = Inr accepted\<rparr>] boot) =
     [''Cannot read properties of undefined (reading name)''] \<and>
   requests (run_loop example_host (example_environment ''index.handler'') example_handler
     [\<lparr>poll = Inr (invocation ''r2'' ''n=2''), report = Inr accepted\<rparr>,
      \<lparr>poll = Inr (invocation ''r3'' ''n=3''), report = Inr accepted\<rparr>] boot) =
     [load ''127.0.0.1:9001//2018-06-01/runtime/invocation/next'' no_options,
      send ''127.0.0.1:9001//2018-06-01/runtime/invocation/r2/error'' no_options
        (JSON_stringify
           \<lparr>errorMessage = ''boom'', errorType = ''Error'', stackTrace = [''Error: boom'']\<rparr>),
      load ''127.0.0.1:9001//2018-06-01/runtime/invocation/next'' no_options,
      send ''127.0.0.1:9001//2018-06-01/runtime/invocation/r3/response'' no_options
        (Result ''ok'')] \<and>
   exit_status (run_loop example_host (example_environment ''index.handler'') example_handler
     [\<lparr>poll = Inr (invocation ''r2'' ''n=2''), report = Inr accepted\<rparr>,
      \<lparr>poll = Inr (invocation ''r3'' ''n=3''), report = Inr accepted\<rparr>] boot) = None"
proof -
  let ?E = "example_environment ''index.handler''"
  let ?io2 = "\<lparr>poll = Inr (invocation ''r2'' ''n=2''), report = Inr accepted\<rparr>"
  let ?io3 = "\<lparr>poll = Inr (invocation ''r3'' ''n=3''), report = Inr accepted\<rparr>"
  obtain ctx2 where mk2: "makeInvocation example_host ?E (resolved (invocation ''r2'' ''n=2''))
      = Inr (''n=2'', ctx2)"
    using example_invocation [of "''n=2''" "''index.handler''" "''r2''"] by auto
  obtain ctx3 where mk3: "makeInvocation example_host ?E (resolved (invocation ''r3'' ''n=3''))
      = Inr (''n=3'', ctx3)"
    using example_invocation [of "''n=3''" "''index.handler''" "''r3''"] by auto
  have p2: "poll ?io2 = Inr (invocation ''r2'' ''n=2'')"
    and p3: "poll ?io3 = Inr (invocation ''r3'' ''n=3'')"
    by simp_all
  have rejected: "rejecting_handler ''n=2'' ctx2 = Inl Null_or_undefined"
    by (simp add: rejecting_handler_def)
  have thrown: "example_handler ''n=2'' ctx2 = Inl (Object boom)"
    and returned: "example_handler ''n=3'' ctx3 = Inr ''ok''"
    by (simp_all add: example_handler_def)
  have ids: "awsRequestId ctx2 = Some ''r2''" "awsRequestId ctx3 = Some ''r3''"
    using makeInvocation_request_id [OF mk2] makeInvocation_request_id [OF mk3]
    by (simp_all add: resolved_def example_request_id)
  note fatal = nullish_throw_is_fatal [where handler = rejecting_handler and s = boot
      and ios = "[?io3]", OF p2 mk2 rejected]
  have a: "requests (run_loop example_host ?E rejecting_handler [?io2, ?io3] boot) =
     [load ''127.0.0.1:9001//2018-06-01/runtime/invocation/next'' no_options]"
    using fatal by (simp add: boot_def example_urls)
  have b: "exit_status (run_loop example_host ?E rejecting_handler [?io2, ?io3] boot) = Some 1"
    using fatal by simp
  have c: "console (run_loop example_host ?E rejecting_handler [?io2, ?io3] boot) =
     [''Cannot read properties of undefined (reading name)'']"
    using fatal by (simp add: boot_def example_host_def)
  obtain s2 :: "string process"
    where one: "loop_body example_host ?E example_handler ?io2 boot = (None, s2)"
      and made2: "requests s2 =
        [load (getNextInvocationUrl ?E) no_options,
         send (getInvocationErrorUrl ?E (Some ''r2'')) no_options
           (JSON_stringify (createError boom))]"
      and status2: "exit_status s2 = None"
    using loop_body_handler_throws [where handler = example_handler and s = boot,
        OF p2 mk2 thrown]
    by (simp add: boot_def ids)
  note two = loop_body_handler_returns [where handler = example_handler and s = s2,
      OF p3 mk3 returned]
  have normalized: "createError boom =
      \<lparr>errorMessage = ''boom'', errorType = ''Error'', stackTrace = [''Error: boom'']\<rparr>"
    by (simp add: createError_def boom_def or_empty_def newline_def)
  have d: "requests (run_loop example_host ?E example_handler [?io2, ?io3] boot) =
     [load ''127.0.0.1:9001//2018-06-01/runtime/invocation/next'' no_options,
      send ''127.0.0.1:9001//2018-06-01/runtime/invocation/r2/error'' no_options
        (JSON_stringify
           \<lparr>errorMessage = ''boom'', errorType = ''Error'', stackTrace = [''Error: boom'']\<rparr>),
      load ''127.0.0.1:9001//2018-06-01/runtime/invocation/next'' no_options,
      send ''127.0.0.1:9001//2018-06-01/runtime/invocation/r3/response'' no_options
        (Result ''ok'')]"
    by (simp add: one two made2 ids normalized response_url error_url example_urls)
  have e: "exit_status (run_loop example_host ?E example_handler [?io2, ?io3] boot) = None"
    by (simp add: one two status2)
  from a b c d e show ?thesis
    by (intro conjI)
qed

section \<open>A handler that cannot be loaded\<close>

lemma example_missing_export:
  "getLambdaHandler example_host ''/var/task'' ''index.nothing'' =
     Inl (new_Error example_host ''Handler function not found!'')"
  by (simp add: getLambdaHandler_def example_host_def element_def truthy_def or_empty_def
      new_Error_def)

text \<open>
  Claim C4, evaluated on the code. The module has no export of the name in the
  specifier: resolution fails; the runtime calls \<^verbatim>\<open>send\<close> once, for the init-error URL,
  makes no poll, and exits with status 1; but the promise of \<^verbatim>\<open>send\<close> is not awaited
  and \<^verbatim>\<open>process.exit(1)\<close> is the next statement, so the request is still queued when
  the process ends and no exchange with the init-error endpoint was started. With the
  handler loaded, the poll and the awaited response of a cycle are started.
\<close>

theorem init_error_report_is_never_sent:
  "map url (requests (startRuntime example_host (example_environment ''index.nothing'')
     [\<lparr>poll = Inr (invocation ''r1'' ''n=1''), report = Inr accepted\<rparr>])) =
     [''127.0.0.1:9001//2018-06-01/runtime/invocation/init/error''] \<and>
   map url (queued (startRuntime example_host (example_environment ''index.nothing'')
     [\<lparr>poll = Inr (invocation ''r1'' ''n=1''), report = Inr accepted\<rparr>])) =
     [''127.0.0.1:9001//2018-06-01/runtime/invocation/init/error''] \<and>
   started (startRuntime example_host (example_environment ''index.nothing'')
     [\<lparr>poll = Inr (invocation ''r1'' ''n=1''), report = Inr accepted\<rparr>]) = [] \<and>
   exit_status (startRuntime example_host (example_environment ''index.nothing'')
     [\<lparr>poll = Inr (invocation ''r1'' ''n=1''), report = Inr accepted\<rparr>]) = Some 1 \<and>
   map url (started (startRuntime example_host (example_environment ''index.handler'')
     [\<lparr>poll = Inr (invocation ''r1'' ''n=1''), report = Inr accepted\<rparr>])) =
     [''127.0.0.1:9001//2018-06-01/runtime/invocation/next'',
      ''127.0.0.1:9001//2018-06-01/runtime/invocation/r1/response'']"
proof -
  let ?E = "example_environment ''index.nothing''"
  let ?L = "example_environment ''index.handler''"
  let ?io = "\<lparr>poll = Inr (invocation ''r1'' ''n=1''), report = Inr accepted\<rparr>"
  have "getLambdaHandler example_host (LAMBDA_TASK_ROOT ?E) (HANDLER ?E) =
     Inl (new_Error example_host ''Handler function not found!'')"
    using example_missing_export by (simp add: example_environment_def)
  note run = startRuntime_init_failure [OF this, of "[?io]"]
  have address: "getInitErrorUrl ?E = ''127.0.0.1:9001//2018-06-01/runtime/invocation/init/error''"
    by (simp add: getInitErrorUrl_def API_VERSION_def interpolate_def example_environment_def)
  have a: "map url (requests (startRuntime example_host ?E [?io])) =
     [''127.0.0.1:9001//2018-06-01/runtime/invocation/init/error'']"
    by (simp add: run send_def address)
  have b: "map url (queued (startRuntime example_host ?E [?io])) =
     [''127.0.0.1:9001//2018-06-01/runtime/invocation/init/error'']"
    by (simp add: run send_def address)
  have c: "started (startRuntime example_host ?E [?io]) = []"
    by (simp add: run boot_def)
  have d: "exit_status (startRuntime example_host ?E [?io]) = Some 1"
    by (simp add: run)
  obtain ctx where mk: "makeInvocation example_host ?L (resolved (invocation ''r1'' ''n=1''))
      = Inr (''n=1'', ctx)"
    using example_invocation [of "''n=1''" "''index.handler''" "''r1''"] by auto
  have returned: "example_handler ''n=1'' ctx = Inr ''ok''"
    by (simp add: example_handler_def)
  have polled: "poll ?io = Inr (invocation ''r1'' ''n=1'')"
    by simp
  have rid: "awsRequestId ctx = Some ''r1''"
    using makeInvocation_request_id [OF mk] by (simp add: resolved_def example_request_id)
  have e: "map url (started (startRuntime example_host ?L [?io])) =
     [''127.0.0.1:9001//2018-06-01/runtime/invocation/next'',
      ''127.0.0.1:9001//2018-06-01/runtime/invocation/r1/response'']"
    using loop_body_handler_returns [where handler = example_handler and s = boot,
        OF polled mk returned]
    by (simp add: startRuntime_loaded [OF example_loaded] boot_def rid load_def send_def
        response_url example_urls)
  from a b c d e show ?thesis
    by (intro conjI)
qed

section \<open>The request id\<close>



section \<open>The remaining time\<close>

text \<open>
  Claim C7. The accessor of a context built from a poll response whose deadline header
  is the number \<open>deadline\<close> gives, called when the clock reads \<open>now\<close>, the difference
  \<open>deadline - now\<close>, computed at the call: a later call never gives more than an
  earlier one, and past the deadline the value is negative, not zero.
\<close>

theorem remaining_time_is_computed_at_each_call:
  assumes "makeInvocation H E data = Inr (event, ctx)"
    and "unary_plus (header (headers data) ''lambda-runtime-deadline-ms'') = Num deadline"
  shows "getRemainingTimeInMillis ctx now = Num (deadline - now) \<and>
    (t1 \<le> t2 \<longrightarrow>
       number_le (getRemainingTimeInMillis ctx t2) (getRemainingTimeInMillis ctx t1)) \<and>
    (deadline < now \<longrightarrow> number_less (getRemainingTimeInMillis ctx now) (Num 0))"
proof -
  have "getRemainingTimeInMillis ctx t = Num (deadline - t)" for t
    using makeInvocation_remaining_time [OF assms(1), of t] assms(2) by simp
  then show ?thesis by simp
qed


theorem remaining_time_is_computed_at_each_call_witness:
  "\<exists>ctx.
     makeInvocation example_host (example_environment ''index.handler'')
       (resolved (invocation ''r1'' ''n=1'')) = Inr (''n=1'', ctx) \<and>
     unary_plus (header (headers (resolved (invocation ''r1'' ''n=1'')))
       ''lambda-runtime-deadline-ms'') = Num 1000 \<and>
     getRemainingTimeInMillis ctx 400 = Num 600 \<and>
     getRemainingTimeInMillis ctx 700 = Num 300 \<and>
     getRemainingTimeInMillis ctx 1500 = Num (- 500) \<and>
     number_le (getRemainingTimeInMillis ctx 700) (getRemainingTimeInMillis ctx 400) \<and>
     number_less (getRemainingTimeInMillis ctx 1500) (Num 0)"
proof -
  obtain ctx where mk: "makeInvocation example_host (example_environment ''index.handler'')
      (resolved (invocation ''r1'' ''n=1'')) = Inr (''n=1'', ctx)"
    using example_invocation [of "''n=1''" "''index.handler''" "''r1''"] by auto
  note at = remaining_time_is_computed_at_each_call [OF mk example_deadline]
  have a: "getRemainingTimeInMillis ctx 400 = Num 600"
    using at [of 400 0 0] by simp
  have b: "getRemainingTimeInMillis ctx 700 = Num 300"
    using at [of 700 0 0] by simp
  have c: "getRemainingTimeInMillis ctx 1500 = Num (- 500)"
    using at [of 1500 0 0] by simp
  have d: "number_le (getRemainingTimeInMillis ctx 700) (getRemainingTimeInMillis ctx 400)"
    using at [of 0 400 700] by simp
  have e: "number_less (getRemainingTimeInMillis ctx 1500) (Num 0)"
    using at [of 1500 0 0] by simp
  from mk example_deadline a b c d e show ?thesis
    by (intro exI [of _ ctx] conjI)
qed


section \<open>Three cycles\<close>





section \<open>The check of the handler specifier\<close>

lemma getLambdaHandler_rejects:
  "\<not> leading_pieces_present handler \<Longrightarrow>
   getLambdaHandler H root handler = Inl (new_Error H (''Invalid handler: '' @ handler))"
  by (auto simp: getLambdaHandler_def leading_pieces_present_def element_def truthy_def
      Let_def split: list.splits)

lemma getLambdaHandler_passes:
  "js_split (CHR ''.'') handler = p # n # rest \<Longrightarrow> p \<noteq> [] \<Longrightarrow> n \<noteq> [] \<Longrightarrow>
   getLambdaHandler H root handler =
     (case import_module H root p of
        Inl e \<Rightarrow> Inl e
      | Inr None \<Rightarrow> Inl (new_Error H ''Handler module is empty!'')
      | Inr (Some handlerModule) \<Rightarrow>
          (case handlerModule n of
             None \<Rightarrow> Inl (new_Error H ''Handler function not found!'')
           | Some f \<Rightarrow> Inr f))"
  by (simp add: getLambdaHandler_def element_def truthy_def or_empty_def
      split: sum.splits option.splits)

lemma no_separator_no_pieces: "CHR ''.'' \<notin> set handler \<Longrightarrow> \<not> leading_pieces_present handler"
  by (simp add: leading_pieces_present_def js_split_no_sep)

lemma splits_exactly_leading: "splits_exactly handler \<Longrightarrow> leading_pieces_present handler"
  by (auto simp: splits_exactly_def leading_pieces_present_def split: list.splits)

text \<open>
  Claim C2, as amended. \<open>getLambdaHandler\<close> throws its invalid-handler error when the
  first or the second piece of the specifier between dots is missing or empty, and
  then the module loader is not consulted. When both pieces are there and non-empty
  the check passes, whatever follows the second piece, and the outcome is what the
  loader gives for the first piece and the export named by the second. A specifier
  that splits into exactly a non-empty path and a non-empty name passes. A specifier
  without a dot does not: the handler is not loaded, and the only request the runtime
  makes is the report of that failure to the init-error endpoint, after which it exits
  with status 1.

  The counterexample to the claim as it was stated: \<open>a.b.c\<close> does not split into exactly
  a path and a name, and is resolved all the same (module \<open>a\<close>, export \<open>b\<close>).
\<close>

theorem specifier_check:
  "(\<not> leading_pieces_present handler \<longrightarrow>
      getLambdaHandler H root handler = Inl (new_Error H (''Invalid handler: '' @ handler))) \<and>
   (leading_pieces_present handler \<longrightarrow>
      (\<exists>p n rest. js_split (CHR ''.'') handler = p # n # rest \<and>
         getLambdaHandler H root handler =
           (case import_module H root p of
              Inl e \<Rightarrow> Inl e
            | Inr None \<Rightarrow> Inl (new_Error H ''Handler module is empty!'')
            | Inr (Some handlerModule) \<Rightarrow>
                (case handlerModule n of
                   None \<Rightarrow> Inl (new_Error H ''Handler function not found!'')
                 | Some f \<Rightarrow> Inr f)))) \<and>
   (splits_exactly handler \<longrightarrow> leading_pieces_present handler) \<and>
   (CHR ''.'' \<notin> set handler \<longrightarrow> \<not> leading_pieces_present handler) \<and>
   (CHR ''.'' \<notin> set (HANDLER E) \<longrightarrow>
      requests (startRuntime H E ios) =
        [send (getInitErrorUrl E) no_options
           (JSON_stringify (createError (new_Error H (''Invalid handler: '' @ HANDLER E))))] \<and>
      exit_status (startRuntime H E ios) = Some 1)"
proof -
  have passes: "\<exists>p n rest. js_split (CHR ''.'') handler = p # n # rest \<and>
         getLambdaHandler H root handler =
           (case import_module H root p of
              Inl e \<Rightarrow> Inl e
            | Inr None \<Rightarrow> Inl (new_Error H ''Handler module is empty!'')
            | Inr (Some handlerModule) \<Rightarrow>
                (case handlerModule n of
                   None \<Rightarrow> Inl (new_Error H ''Handler function not found!'')
                 | Some f \<Rightarrow> Inr f))"
    if "leading_pieces_present handler"
  proof -
    from that obtain p n rest where pieces: "js_split (CHR ''.'') handler = p # n # rest"
      and "p \<noteq> []" and "n \<noteq> []"
      by (auto simp: leading_pieces_present_def split: list.splits)
    then show ?thesis
      using getLambdaHandler_passes [of handler p n rest H root] by blast
  qed
  have started: "requests (startRuntime H E ios) =
        [send (getInitErrorUrl E) no_options
           (JSON_stringify (createError (new_Error H (''Invalid handler: '' @ HANDLER E))))] \<and>
      exit_status (startRuntime H E ios) = Some 1"
    if "CHR ''.'' \<notin> set (HANDLER E)"
  proof -
    have "getLambdaHandler H (LAMBDA_TASK_ROOT E) (HANDLER E) =
        Inl (new_Error H (''Invalid handler: '' @ HANDLER E))"
      using that by (simp add: getLambdaHandler_rejects no_separator_no_pieces)
    then show ?thesis
      by (simp add: startRuntime_init_failure)
  qed
  show ?thesis
    using getLambdaHandler_rejects [of handler H root] passes splits_exactly_leading [of handler]
      no_separator_no_pieces [of handler] started
    by blast
qed

theorem specifier_exactness_counterexample:
  "\<not> splits_exactly ''a.b.c'' \<and>
   getLambdaHandler example_host ''/var/task'' ''a.b.c'' = Inr example_handler"
  by (simp add: splits_exactly_def getLambdaHandler_def example_host_def element_def
      truthy_def or_empty_def)

theorem specifier_check_witness:
  "\<not> leading_pieces_present ''index'' \<and>
   getLambdaHandler example_host ''/var/task'' ''index'' =
     Inl (new_Error example_host ''Invalid handler: index'') \<and>
   requests (startRuntime example_host (example_environment ''index'') [] :: string process) =
     [send (getInitErrorUrl (example_environment ''index'')) no_options
        (JSON_stringify (createError (new_Error example_host ''Invalid handler: index'')))] \<and>
   leading_pieces_present ''a.b.c'' \<and>
   getLambdaHandler example_host ''/var/task'' ''a.b.c'' = Inr example_handler \<and>
   splits_exactly ''index.handler'' \<and>
   leading_pieces_present ''index.handler'' \<and>
   \<not> leading_pieces_present ''./index.handler''"
proof -
  note check = specifier_check [of _ example_host "''/var/task''" _ "[]"]
  have none: "CHR ''.'' \<notin> set ''index''"
    by simp
  have absent: "\<not> leading_pieces_present ''index''"
    using check [of "''index''"] none by blast
  have rejected: "getLambdaHandler example_host ''/var/task'' ''index'' =
     Inl (new_Error example_host ''Invalid handler: index'')"
    using check [of "''index''"] absent by simp
  have "CHR ''.'' \<notin> set (HANDLER (example_environment ''index''))"
    by (simp add: example_environment_def)
  then have started:
    "requests (startRuntime example_host (example_environment ''index'') [] :: string process) =
     [send (getInitErrorUrl (example_environment ''index'')) no_options
        (JSON_stringify (createError (new_Error example_host ''Invalid handler: index'')))]"
    using check [of "''index''" "example_environment ''index''"]
    by (simp add: example_environment_def)
  have three: "leading_pieces_present ''a.b.c''"
    by (simp add: leading_pieces_present_def)
  have found: "getLambdaHandler example_host ''/var/task'' ''a.b.c'' = Inr example_handler"
    using check [of "''a.b.c''"] three by (auto simp: example_host_def)
  have exact: "splits_exactly ''index.handler''"
    by (simp add: splits_exactly_def)
  then have two: "leading_pieces_present ''index.handler''"
    using check [of "''index.handler''"] by blast
  have dotted: "\<not> leading_pieces_present ''./index.handler''"
    by (simp add: leading_pieces_present_def)
  from absent rejected started three found exact two dotted show ?thesis
    by (intro conjI)
qed


section \<open>The trace id\<close>

lemma lower_char_not_upper: "lower_char c \<notin> set ''ABCDEFGHIJKLMNOPQRSTUVWXYZ''"
proof (cases "map_of (zip ''ABCDEFGHIJKLMNOPQRSTUVWXYZ'' ''abcdefghijklmnopqrstuvwxyz'') c")
  case None
  then have "c \<notin> set ''ABCDEFGHIJKLMNOPQRSTUVWXYZ''"
    by (simp add: map_of_eq_None_iff split: if_splits)
  with None show ?thesis by (simp add: lower_char_def)
next
  case (Some d)
  then have "d \<in> set ''abcdefghijklmnopqrstuvwxyz''"
    by (meson map_of_SomeD set_zip_rightD)
  then have "d \<notin> set ''ABCDEFGHIJKLMNOPQRSTUVWXYZ''" by auto
  with Some show ?thesis by (simp add: lower_char_def)
qed

text \<open>
  No name in \<open>res_headers\<close> has a capital letter, so the name that line 89 looks up is
  never there, whatever the response.
\<close>

lemma mixed_case_name_is_absent: "header (res_headers res) ''Lambda-Runtime-Trace-Id'' = None"
proof -
  have "k \<noteq> ''Lambda-Runtime-Trace-Id''" if "k \<in> fst ` set (res_headers res)" for k
  proof
    assume "k = ''Lambda-Runtime-Trace-Id''"
    with that obtain raw where "map lower_char raw = ''Lambda-Runtime-Trace-Id''"
      by (auto simp: res_headers_def)
    then have "CHR ''L'' \<in> set (map lower_char raw)"
      by simp
    then obtain c where "lower_char c = CHR ''L''"
      by auto
    with lower_char_not_upper [of c] show False
      by simp
  qed
  then show ?thesis
    by (auto simp: header_def map_of_eq_None_iff)
qed

lemma trace_slot_after_poll:
  "answer = Inr res \<Longrightarrow> makeInvocation H E (resolved res) = Inr invoc \<Longrightarrow>
   X_AMZN_TRACE_ID (snd (getNextInvocation H E answer s)) = Some ''undefined''"
  by (simp add: getNextInvocation_ok mixed_case_name_is_absent interpolate_def)

text \<open>
  Claim C8, evaluated on the code. The poll response carries the trace id, which the
  transport delivers under the lower-case name \<open>lambda-runtime-trace-id\<close>; the poll
  succeeds; and the environment variable holds the text \<open>undefined\<close> afterwards, not the
  trace id: line 89 reads the header under a name with capital letters.
\<close>

theorem trace_id_header_is_not_read:
  "header (res_headers (invocation ''r1'' ''n=1'')) ''lambda-runtime-trace-id''
     = Some ''Root=1-5e1b4151'' \<and>
   (\<exists>ctx. fst (getNextInvocation example_host (example_environment ''index.handler'')
       (Inr (invocation ''r1'' ''n=1'')) (boot :: string process)) = Inr (''n=1'', ctx)) \<and>
   X_AMZN_TRACE_ID (snd (getNextInvocation example_host (example_environment ''index.handler'')
       (Inr (invocation ''r1'' ''n=1'')) (boot :: string process))) = Some ''undefined''"
proof -
  let ?E = "example_environment ''index.handler''"
  have sent: "header (res_headers (invocation ''r1'' ''n=1'')) ''lambda-runtime-trace-id''
     = Some ''Root=1-5e1b4151''"
    by (simp add: header_def res_headers_def invocation_def lower_char_def)
  obtain ctx where mk: "makeInvocation example_host ?E (resolved (invocation ''r1'' ''n=1''))
      = Inr (''n=1'', ctx)"
    using example_invocation [of "''n=1''" "''index.handler''" "''r1''"] by auto
  have got: "\<exists>ctx. fst (getNextInvocation example_host ?E
       (Inr (invocation ''r1'' ''n=1'')) (boot :: string process)) = Inr (''n=1'', ctx)"
    by (simp add: getNextInvocation_ok [OF refl mk])
  have slot: "X_AMZN_TRACE_ID (snd (getNextInvocation example_host ?E
       (Inr (invocation ''r1'' ''n=1'')) (boot :: string process))) = Some ''undefined''"
    by (rule trace_slot_after_poll [OF refl mk])
  from sent got slot show ?thesis
    by (intro conjI)
qed

section \<open>A failure to post an error report\<close>

text \<open>
  Claim C5, evaluated on the code. A cycle whose handler throws an \<^verbatim>\<open>Error\<close> and whose
  error report is then lost on the network: the process has no exit status and has
  logged nothing,
  the rejection sits with a promise that nobody awaits, and with one more cycle the
  runtime polls and responds as if nothing had happened. The same loss when posting a
  response ends the process with status 1 and the message on the console.
\<close>

theorem error_post_failure_is_swallowed:
  "exit_status (run_loop example_host (example_environment ''index.handler'') example_handler
     [\<lparr>poll = Inr (invocation ''r2'' ''n=2''), report = Inl connection_reset\<rparr>] boot) = None \<and>
   console (run_loop example_host (example_environment ''index.handler'') example_handler
     [\<lparr>poll = Inr (invocation ''r2'' ''n=2''), report = Inl connection_reset\<rparr>] boot) = [] \<and>
   unawaited (run_loop example_host (example_environment ''index.handler'') example_handler
     [\<lparr>poll = Inr (invocation ''r2'' ''n=2''), report = Inl connection_reset\<rparr>] boot)
     = [Inl connection_reset] \<and>
   map endpoint_of (requests (run_loop example_host (example_environment ''index.handler'')
     example_handler
     [\<lparr>poll = Inr (invocation ''r2'' ''n=2''), report = Inl connection_reset\<rparr>,
      \<lparr>poll = Inr (invocation ''r3'' ''n=3''), report = Inr accepted\<rparr>] boot))
     = [Next, Error, Next, Response] \<and>
   exit_status (run_loop example_host (example_environment ''index.handler'') example_handler
     [\<lparr>poll = Inr (invocation ''r2'' ''n=2''), report = Inl connection_reset\<rparr>,
      \<lparr>poll = Inr (invocation ''r3'' ''n=3''), report = Inr accepted\<rparr>] boot) = None \<and>
   exit_status (run_loop example_host (example_environment ''index.handler'') example_handler
     [\<lparr>poll = Inr (invocation ''r1'' ''n=1''), report = Inl connection_reset\<rparr>] boot) = Some 1 \<and>
   console (run_loop example_host (example_environment ''index.handler'') example_handler
     [\<lparr>poll = Inr (invocation ''r1'' ''n=1''), report = Inl connection_reset\<rparr>] boot)
     = [''read ECONNRESET'']"
proof -
  let ?E = "example_environment ''index.handler''"
  let ?lost = "\<lparr>poll = Inr (invocation ''r2'' ''n=2''), report = Inl connection_reset\<rparr>"
  let ?fine = "\<lparr>poll = Inr (invocation ''r3'' ''n=3''), report = Inr accepted\<rparr>"
  let ?late = "\<lparr>poll = Inr (invocation ''r1'' ''n=1''), report = Inl connection_reset\<rparr>"
  obtain ctx1 where mk1: "makeInvocation example_host ?E (resolved (invocation ''r1'' ''n=1''))
      = Inr (''n=1'', ctx1)"
    using example_invocation [of "''n=1''" "''index.handler''" "''r1''"] by auto
  obtain ctx2 where mk2: "makeInvocation example_host ?E (resolved (invocation ''r2'' ''n=2''))
      = Inr (''n=2'', ctx2)"
    using example_invocation [of "''n=2''" "''index.handler''" "''r2''"] by auto
  obtain ctx3 where mk3: "makeInvocation example_host ?E (resolved (invocation ''r3'' ''n=3''))
      = Inr (''n=3'', ctx3)"
    using example_invocation [of "''n=3''" "''index.handler''" "''r3''"] by auto
  have h1: "example_handler ''n=1'' ctx1 = Inr ''ok''"
    and h2: "example_handler ''n=2'' ctx2 = Inl (Object boom)"
    and h3: "example_handler ''n=3'' ctx3 = Inr ''ok''"
    by (simp_all add: example_handler_def)
  have p1: "poll ?late = Inr (invocation ''r1'' ''n=1'')"
    and p2: "poll ?lost = Inr (invocation ''r2'' ''n=2'')"
    and p3: "poll ?fine = Inr (invocation ''r3'' ''n=3'')"
    by simp_all
  note lost = loop_body_handler_throws [where handler = example_handler and s = boot,
      OF p2 mk2 h2]
  have a: "exit_status (run_loop example_host ?E example_handler [?lost] boot) = None"
    and b: "console (run_loop example_host ?E example_handler [?lost] boot) = []"
    and c: "unawaited (run_loop example_host ?E example_handler [?lost] boot)
      = [Inl connection_reset]"
    by (simp_all add: lost) (simp_all add: boot_def settle_def)
  obtain s1 :: "string process" where s1: "loop_body example_host ?E example_handler ?lost boot = (None, s1)"
    and made1: "requests s1 = [load (getNextInvocationUrl ?E) no_options,
            send (getInvocationErrorUrl ?E (awsRequestId ctx2)) no_options
              (JSON_stringify (createError boom))]"
    and status1: "exit_status s1 = None"
    using lost by (simp add: boot_def)
  note fine = loop_body_handler_returns [where handler = example_handler and s = s1,
      OF p3 mk3 h3]
  have d: "map endpoint_of (requests (run_loop example_host ?E example_handler [?lost, ?fine] boot))
     = [Next, Error, Next, Response]"
    by (simp add: s1 fine made1 endpoint_of_next endpoint_of_error endpoint_of_response)
  have e: "exit_status (run_loop example_host ?E example_handler [?lost, ?fine] boot) = None"
    by (simp add: s1 fine status1)
  note late = response_post_failure_is_fatal [where handler = example_handler and s = boot
      and ios = "[]", OF p1 mk1 h1]
  have f: "exit_status (run_loop example_host ?E example_handler [?late] boot) = Some 1"
    using late [of connection_reset] by simp
  have g: "console (run_loop example_host ?E example_handler [?late] boot) = [''read ECONNRESET'']"
    using late [of connection_reset] by (simp add: boot_def connection_reset_def)
  from a b c d e f g show ?thesis
    by (intro conjI)
qed


end
